theory Spec2Isabelle
  imports Complex_Main
begin

section \<open>The anonymous rate limiter of the evaluateDraft endpoint\<close>

text \<open>
  The endpoint keeps one module-level table,
  \<^verbatim>\<open>rateLimitMap = new Map<string, { count: number; resetTime: number }>()\<close>,
  keyed by the client identifier. Times are \<^verbatim>\<open>Date.now()\<close> readings: integer
  milliseconds, modelled as \<open>int\<close> (every number the limiter handles is an integer far
  below \<open>2^53\<close>, where JavaScript's doubles are exact). The clock reading is an argument
  of the model, the table is passed in and returned.
\<close>

record rate_limit_record =
  count :: int
  resetTime :: int

type_synonym rate_limit_map = "string \<rightharpoonup> rate_limit_record"

definition RATE_LIMIT_WINDOW :: int where
  "RATE_LIMIT_WINDOW = 15 * 60 * 1000"

definition RATE_LIMIT_MAX_REQUESTS :: int where
  "RATE_LIMIT_MAX_REQUESTS = 5"

text \<open>
  The value \<^verbatim>\<open>checkRateLimit\<close> returns: \<^verbatim>\<open>{ allowed, remaining, resetTime? }\<close>.
  The optional field is only present on a denial; it is called \<open>retResetTime\<close> here
  because the table's records already own the name \<open>resetTime\<close>.
\<close>

record check_result =
  allowed :: bool
  remaining :: int
  retResetTime :: "int option"

text \<open>
  \<^verbatim>\<open>checkRateLimit(key)\<close>, with \<open>now\<close> the value of its \<^verbatim>\<open>Date.now()\<close>. A stored
  record is an object, hence truthy: \<^verbatim>\<open>!record\<close> holds exactly when the key is absent.
  \<^verbatim>\<open>record.count++\<close> mutates the object held by the table, which is the update of
  the last branch.
\<close>

definition checkRateLimit :: "int \<Rightarrow> string \<Rightarrow> rate_limit_map \<Rightarrow> check_result \<times> rate_limit_map" where
  "checkRateLimit now key m =
     (case m key of
        None \<Rightarrow>
          (\<lparr>allowed = True, remaining = RATE_LIMIT_MAX_REQUESTS - 1, retResetTime = None\<rparr>,
           m(key \<mapsto> \<lparr>count = 1, resetTime = now + RATE_LIMIT_WINDOW\<rparr>))
      | Some record \<Rightarrow>
          if now > resetTime record then
            (\<lparr>allowed = True, remaining = RATE_LIMIT_MAX_REQUESTS - 1, retResetTime = None\<rparr>,
             m(key \<mapsto> \<lparr>count = 1, resetTime = now + RATE_LIMIT_WINDOW\<rparr>))
          else if count record \<ge> RATE_LIMIT_MAX_REQUESTS then
            (\<lparr>allowed = False, remaining = 0, retResetTime = Some (resetTime record)\<rparr>, m)
          else
            (\<lparr>allowed = True,
              remaining = RATE_LIMIT_MAX_REQUESTS - (count record + 1),
              retResetTime = None\<rparr>,
             m(key \<mapsto> record\<lparr>count := count record + 1\<rparr>)))"

text \<open>
  The body of the \<^verbatim>\<open>setInterval\<close> sweep: every record whose window has passed is
  deleted, nothing else is touched.
\<close>

definition cleanup :: "int \<Rightarrow> rate_limit_map \<Rightarrow> rate_limit_map" where
  "cleanup now m =
     (\<lambda>key. case m key of
               None \<Rightarrow> None
             | Some record \<Rightarrow> if now > resetTime record then None else Some record)"

text \<open>Consecutive calls for one key, at the clock readings of the list, oldest first.\<close>

fun checkRateLimit_calls :: "string \<Rightarrow> int list \<Rightarrow> rate_limit_map \<Rightarrow> check_result list \<times> rate_limit_map" where
  "checkRateLimit_calls key [] m = ([], m)"
| "checkRateLimit_calls key (now # later) m =
     (let (r, m') = checkRateLimit now key m;
          (rs, m'') = checkRateLimit_calls key later m'
      in (r # rs, m''))"

section \<open>Strings and numbers as the handler uses them\<close>

text \<open>
  Header values reach the handler decoded one byte per character, so a \<open>char\<close> is one
  code unit. \<^verbatim>\<open>String.prototype.trim\<close> strips white space and line terminators; below
  code unit 256 these are TAB, LF, VT, FF, CR, SPACE and NBSP.
\<close>

definition is_whitespace :: "char \<Rightarrow> bool" where
  "is_whitespace c =
     (c \<in> set [CHR 0x09, CHR 0x0A, CHR 0x0B, CHR 0x0C, CHR 0x0D, CHR 0x20, CHR 0xA0])"

definition trim :: "string \<Rightarrow> string" where
  "trim s = rev (dropWhile is_whitespace (rev (dropWhile is_whitespace s)))"

text \<open>
  \<^verbatim>\<open>s.split(sep)\<close> for a separator of one character: the pieces between the
  separators, in order; the empty string gives one empty piece.
\<close>

fun js_split :: "char \<Rightarrow> string \<Rightarrow> string list" where
  "js_split sep [] = [[]]"
| "js_split sep (c # cs) =
     (if c = sep then [] # js_split sep cs
      else (case js_split sep cs of
              [] \<Rightarrow> [[c]]
            | piece # pieces \<Rightarrow> (c # piece) # pieces))"

text \<open>\<^verbatim>\<open>n.toString()\<close> for an integer \<open>n\<close>: decimal digits, a minus sign when negative.\<close>

definition digit_char :: "nat \<Rightarrow> char" where
  "digit_char d = ''0123456789'' ! d"

fun digits :: "nat \<Rightarrow> string" where
  "digits n = (if n < 10 then [digit_char n] else digits (n div 10) @ [digit_char (n mod 10)])"

declare digits.simps [simp del]

definition toString :: "int \<Rightarrow> string" where
  "toString n = (if n < 0 then CHR ''-'' # digits (nat (- n)) else digits (nat n))"

section \<open>Requests and client identification\<close>

text \<open>
  A header of \<^verbatim>\<open>req.headers\<close> has the type \<^verbatim>\<open>string | string[] | undefined\<close>.
\<close>

datatype header_value = HUndefined | HString string | HArray "string list"

text \<open>What a field of the parsed JSON body can be, as far as the handler passes it on.\<close>

datatype json_value = JUndefined | JNull | JBool bool | JNumber int | JString string

text \<open>
  The parts of \<^verbatim>\<open>NextApiRequest\<close> the handler reads. \<open>method'\<close> is
  \<^verbatim>\<open>req.method\<close> (the plain name is a keyword of Isabelle), \<open>authorization\<close> is
  \<^verbatim>\<open>req.headers.authorization\<close> (\<open>None\<close> for \<^verbatim>\<open>undefined\<close>), \<open>remoteAddress\<close> is
  \<^verbatim>\<open>req.socket.remoteAddress\<close>, \<open>title\<close> and \<open>content\<close> are the two fields the
  handler takes out of \<^verbatim>\<open>req.body\<close>, which is taken to be an object.
\<close>

record request =
  method' :: string
  authorization :: "string option"
  x_forwarded_for :: header_value
  x_real_ip :: header_value
  remoteAddress :: "string option"
  title :: json_value
  content :: json_value

text \<open>
  \<^verbatim>\<open>getClientIdentifier(req)\<close>. \<^verbatim>\<open>typeof v === "string"\<close> is the constructor
  \<open>HString\<close>; \<^verbatim>\<open>split(",")[0]\<close> is the head of a list that is never empty;
  \<^verbatim>\<open>remoteAddress || "unknown"\<close> takes the sentinel for \<^verbatim>\<open>undefined\<close> and for the
  empty string.
\<close>

definition getClientIdentifier :: "request \<Rightarrow> string" where
  "getClientIdentifier req =
     (case x_forwarded_for req of
        HString forwarded \<Rightarrow> trim (hd (js_split CHR '','' forwarded))
      | _ \<Rightarrow>
          (case x_real_ip req of
             HString realIp \<Rightarrow> realIp
           | _ \<Rightarrow>
               (case remoteAddress req of
                  None \<Rightarrow> ''unknown''
                | Some addr \<Rightarrow> if addr = [] then ''unknown'' else addr)))"

section \<open>Evaluations, errors and responses\<close>

text \<open>
  Modelled from the spec: the \<^verbatim>\<open>Evaluation\<close> type is declared in
  \<^verbatim>\<open>@/types/evaluation\<close>, which is not among the sources. Its fields are those of
  the spec's data model (3): six quality criteria \<^verbatim>\<open>{ pass, reason }\<close>, two attention
  criteria \<^verbatim>\<open>{ score, reason }\<close>, the three aggregates and the summary. They are also
  the output format the screening prompt asks for and the fields the badge component
  reads. Scores are exact real numbers here.
\<close>

datatype quality_criterion = QualityCriterion (pass: bool) (reason: string)

datatype attention_level = high | medium | low

datatype attention_criterion = AttentionCriterion (score: attention_level) (attention_reason: string)

record evaluation =
  complete :: quality_criterion
  legible :: quality_criterion
  consistent :: quality_criterion
  compliant :: quality_criterion
  justified :: quality_criterion
  measurable :: quality_criterion
  relevant :: attention_criterion
  material :: attention_criterion
  qualityScore :: real
  attentionScore :: real
  overallPass :: bool
  summary :: string

text \<open>
  Modelled from the spec: what the collaborators of \<^verbatim>\<open>@/lib/server/screening\<close>
  throw is declared there, not in the sources. These are the two kinds of the spec's
  taxonomy (7) that reach \<^verbatim>\<open>respondWithScreeningError\<close>, with the three causes of
  an upstream failure, and a third kind for any other exception.
\<close>

datatype evaluation_failure = Timeout | MalformedResponse | UpstreamFailure

datatype screening_error =
    ValidationError string
  | EvaluationError evaluation_failure
  | UnexpectedError

text \<open>
  The response object: the status code, the headers set so far (latest first, one entry
  per name) and the JSON body. The three bodies the handler writes itself are
  \<^verbatim>\<open>{ error }\<close>, \<^verbatim>\<open>{ error, message, retryAfter }\<close> and
  \<^verbatim>\<open>{ evaluation, authenticatedAs }\<close>.
\<close>

datatype response_body =
    NoBody
  | ErrorBody string
  | RateLimitBody (error: string) (message: string) (retryAfter: int)
  | EvaluationBody evaluation "string option"

record response =
  status :: nat
  headers :: "(string \<times> string) list"
  body :: response_body

definition new_response :: response where
  "new_response = \<lparr>status = 200, headers = [], body = NoBody\<rparr>"

definition setHeader :: "string \<Rightarrow> string \<Rightarrow> response \<Rightarrow> response" where
  "setHeader name v res = res\<lparr>headers := (name, v) # filter (\<lambda>h. fst h \<noteq> name) (headers res)\<rparr>"

definition getHeader :: "response \<Rightarrow> string \<Rightarrow> string option" where
  "getHeader res name = map_of (headers res) name"

text \<open>\<^verbatim>\<open>res.status(code).json(b)\<close>.\<close>

definition send_json :: "nat \<Rightarrow> response_body \<Rightarrow> response \<Rightarrow> response" where
  "send_json code b res = res\<lparr>status := code, body := b\<rparr>"

text \<open>
  Modelled from the spec: \<^verbatim>\<open>respondWithScreeningError\<close> is imported from
  \<^verbatim>\<open>@/lib/server/screening\<close>, which is not among the sources. The spec (4.5, 6 and 7)
  has a validation failure answered with 400 and the validation detail, and an upstream
  failure with 500 or 502 and a generic message; the model answers 502 to an
  \<open>EvaluationError\<close> and 500 to anything else, with the caller's fallback message when
  there is one. It writes the status and the body of the response it is handed, whose
  headers stay.
\<close>

definition respondWithScreeningError :: "response \<Rightarrow> screening_error \<Rightarrow> string option \<Rightarrow> response" where
  "respondWithScreeningError res err fallbackMessage =
     (let generic = (case fallbackMessage of None \<Rightarrow> ''Internal server error'' | Some msg \<Rightarrow> msg)
      in case err of
           ValidationError detail \<Rightarrow> send_json 400 (ErrorBody detail) res
         | EvaluationError _ \<Rightarrow> send_json 502 (ErrorBody generic) res
         | UnexpectedError \<Rightarrow> send_json 500 (ErrorBody generic) res)"

section \<open>The evaluation requester\<close>

text \<open>
  \<^verbatim>\<open>buildScreeningPrompt(title, content)\<close>: one template string, the static rubric
  (the argument \<open>rubric\<close>: everything of the template before its last three lines)
  followed by the title and the content, verbatim.
\<close>

definition buildScreeningPrompt :: "string \<Rightarrow> string \<Rightarrow> string \<Rightarrow> string" where
  "buildScreeningPrompt rubric title' content' =
     rubric @ ''Title: '' @ title' @ [CHR 0x0A, CHR 0x0A] @ ''Content: '' @ content'"

text \<open>
  Modelled from the spec: what one call of the external evaluation service comes to
  (4.4): no usable answer, an answer that is not a well-formed evaluation document, or a
  document with all twelve fields, the three aggregates \<open>qualityScore\<close>,
  \<open>attentionScore\<close> and \<open>overallPass\<close> as the service reports them.
\<close>

datatype service_reply = NoReply evaluation_failure | Malformed | Document evaluation

text \<open>
  Modelled from the spec: the aggregates as the data model (3) defines them, computed
  from the per-criterion fields: the mean of the six quality criteria (pass 1, fail 0),
  the mean of the two attention scores (high 1, medium 1/2, low 0), and the conjunction of
  the six quality criteria.
\<close>

definition bool_score :: "bool \<Rightarrow> real" where
  "bool_score b = (if b then 1 else 0)"

fun level_score :: "attention_level \<Rightarrow> real" where
  "level_score high = 1"
| "level_score medium = 1 / 2"
| "level_score low = 0"

definition quality_passes :: "evaluation \<Rightarrow> bool list" where
  "quality_passes e =
     [pass (complete e), pass (legible e), pass (consistent e),
      pass (compliant e), pass (justified e), pass (measurable e)]"

definition recompute :: "evaluation \<Rightarrow> evaluation" where
  "recompute e =
     e\<lparr>qualityScore := sum_list (map bool_score (quality_passes e)) / 6,
       attentionScore := (level_score (score (relevant e)) + level_score (score (material e))) / 2,
       overallPass := list_all id (quality_passes e)\<rparr>"

text \<open>
  Modelled from the spec: \<^verbatim>\<open>requestEvaluation\<close> is imported from
  \<^verbatim>\<open>@/lib/server/screening\<close>, which is not among the sources. After the spec's 4.4 it
  builds the prompt from the title and the content, calls the service once, fails with an
  \<open>EvaluationError\<close> when the call fails or the answer is malformed, and otherwise
  returns the answer with \<open>qualityScore\<close>, \<open>attentionScore\<close> and \<open>overallPass\<close>
  recomputed from the per-criterion fields.
\<close>

definition requestEvaluation ::
    "string \<Rightarrow> (string \<Rightarrow> service_reply) \<Rightarrow> string \<Rightarrow> string \<Rightarrow> screening_error + evaluation" where
  "requestEvaluation rubric service title' content' =
     (case service (buildScreeningPrompt rubric title' content') of
        NoReply why \<Rightarrow> Inl (EvaluationError why)
      | Malformed \<Rightarrow> Inl (EvaluationError MalformedResponse)
      | Document reported \<Rightarrow> Inr (recompute reported))"

section \<open>The gateway handler\<close>

text \<open>
  The retry-after value of a denial:
  \<^verbatim>\<open>resetTime ? Math.ceil((resetTime - Date.now()) / 1000) : RATE_LIMIT_WINDOW / 1000\<close>,
  with \<open>now\<close> this second clock reading. A number is falsy when it is zero.
\<close>

definition retryAfterSeconds :: "int option \<Rightarrow> int \<Rightarrow> int" where
  "retryAfterSeconds resetTime' now =
     (case resetTime' of
        None \<Rightarrow> RATE_LIMIT_WINDOW div 1000
      | Some t \<Rightarrow>
          if t = 0 then RATE_LIMIT_WINDOW div 1000
          else \<lceil>real_of_int (t - now) / 1000\<rceil>)"

definition rateLimitMessage :: "int \<Rightarrow> string" where
  "rateLimitMessage retryAfter' =
     ''You'' @ [CHR 0x27] @ ''ve reached the limit of '' @ toString RATE_LIMIT_MAX_REQUESTS
     @ '' free evaluations. Please try again in '' @ toString \<lceil>real_of_int retryAfter' / 60\<rceil>
     @ '' minutes or connect your NEAR wallet for unlimited evaluations.''"

text \<open>
  The handler's first step after the method check: with no \<^verbatim>\<open>authorization\<close> header
  (or an empty, falsy one) the request is anonymous; otherwise \<^verbatim>\<open>verifyNearAuth\<close> is
  awaited, and a rejection is caught and leaves the request anonymous. The collaborator is
  an argument: \<open>None\<close> when it throws, the verified account id otherwise. The result is
  the pair \<^verbatim>\<open>(isAuthenticated, accountId)\<close>.
\<close>

definition resolveIdentity :: "(string \<Rightarrow> string option) \<Rightarrow> request \<Rightarrow> bool \<times> string option" where
  "resolveIdentity verifyNearAuth req =
     (case authorization req of
        None \<Rightarrow> (False, None)
      | Some authHeader \<Rightarrow>
          if authHeader = [] then (False, None)
          else (case verifyNearAuth authHeader of
                  Some account \<Rightarrow> (True, Some account)
                | None \<Rightarrow> (False, None)))"

text \<open>
  The handler's last two steps: sanitize, then request the evaluation; an error of either
  goes to \<^verbatim>\<open>respondWithScreeningError\<close>, the evaluation is sent as it came back.
\<close>

definition evaluateAndRespond ::
    "(json_value \<Rightarrow> json_value \<Rightarrow> screening_error + string \<times> string)
     \<Rightarrow> (string \<Rightarrow> string \<Rightarrow> screening_error + evaluation)
     \<Rightarrow> string option \<Rightarrow> request \<Rightarrow> response \<Rightarrow> response" where
  "evaluateAndRespond sanitizeProposalInput requestEval accountId req res =
     (case sanitizeProposalInput (title req) (content req) of
        Inl err \<Rightarrow> respondWithScreeningError res err None
      | Inr (sanitizedTitle, sanitizedContent) \<Rightarrow>
          (case requestEval sanitizedTitle sanitizedContent of
             Inl err \<Rightarrow> respondWithScreeningError res err (Some ''Failed to evaluate proposal'')
           | Inr ev \<Rightarrow> send_json 200 (EvaluationBody ev accountId) res))"

text \<open>
  \<^verbatim>\<open>handler(req, res)\<close> of \<^verbatim>\<open>POST /api/evaluateDraft\<close>. The three collaborators are
  arguments; \<open>now1\<close> is the clock reading inside \<^verbatim>\<open>checkRateLimit\<close>, \<open>now2\<close> the
  one of the retry-after computation; the table goes in and comes out. Console output is
  not part of the model.
\<close>

definition handler ::
    "(string \<Rightarrow> string option)
     \<Rightarrow> (json_value \<Rightarrow> json_value \<Rightarrow> screening_error + string \<times> string)
     \<Rightarrow> (string \<Rightarrow> string \<Rightarrow> screening_error + evaluation)
     \<Rightarrow> int \<Rightarrow> int \<Rightarrow> request \<Rightarrow> response \<Rightarrow> rate_limit_map \<Rightarrow> response \<times> rate_limit_map" where
  "handler verifyNearAuth sanitizeProposalInput requestEval now1 now2 req res m =
     (if method' req \<noteq> ''POST'' then (send_json 405 (ErrorBody ''Method not allowed'') res, m)
      else
        let (isAuthenticated, accountId) = resolveIdentity verifyNearAuth req
        in if \<not> isAuthenticated then
             let clientId = getClientIdentifier req;
                 (r, m') = checkRateLimit now1 clientId m;
                 res1 = setHeader ''X-RateLimit-Remaining'' (toString (remaining r)) res;
                 res2 = setHeader ''X-RateLimit-Limit'' (toString RATE_LIMIT_MAX_REQUESTS) res1
             in if \<not> allowed r then
                  let retryAfter' = retryAfterSeconds (retResetTime r) now2;
                      res3 = setHeader ''Retry-After'' (toString retryAfter') res2
                  in (send_json 429
                        (RateLimitBody ''Rate limit exceeded'' (rateLimitMessage retryAfter') retryAfter')
                        res3, m')
                else (evaluateAndRespond sanitizeProposalInput requestEval accountId req res2, m')
           else (evaluateAndRespond sanitizeProposalInput requestEval accountId req res, m))"

text \<open>
  The tables the running server can hold at clock reading \<open>t\<close>: it starts empty, the
  clock starts at or after the epoch and never runs backwards, and the table changes only
  in \<open>checkRateLimit\<close> and in the sweep.
\<close>

inductive reachable :: "int \<Rightarrow> rate_limit_map \<Rightarrow> bool" where
  start: "0 \<le> t \<Longrightarrow> reachable t Map.empty"
| call: "reachable t m \<Longrightarrow> t \<le> now \<Longrightarrow> reachable now (snd (checkRateLimit now key m))"
| sweep: "reachable t m \<Longrightarrow> t \<le> now \<Longrightarrow> reachable now (cleanup now m)"

section \<open>Concrete inputs\<close>

text \<open>
  Inputs at which the handler is run below: the service's answer of the prompt's second
  example with aggregates that do not fit its criteria, an anonymous request behind a
  proxy, stand-in collaborators (a sanitizer that accepts any two strings, a verifier
  that knows one credential, an evaluation requester that succeeds and one that times out,
  a service that answers every prompt with that document) and a table in which the
  request's client has used up its window.
\<close>

definition sample_document :: evaluation where
  "sample_document =
     \<lparr>complete = QualityCriterion True ''All template sections present'',
      legible = QualityCriterion True ''Core elements identifiable'',
      consistent = QualityCriterion False ''Budget differs between sections'',
      compliant = QualityCriterion True ''Meets community standards'',
      justified = QualityCriterion False ''Timeline contradicts scope'',
      measurable = QualityCriterion True ''Concrete metric provided'',
      relevant = AttentionCriterion high ''Supports the developer ecosystem'',
      material = AttentionCriterion low ''Limited potential impact'',
      qualityScore = 67 / 100,
      attentionScore = 1 / 2,
      overallPass = True,
      summary = ''Proposes a testing tool.''\<rparr>"

definition sample_request :: request where
  "sample_request =
     \<lparr>method' = ''POST'', authorization = None,
      x_forwarded_for = HString '' 203.0.113.9 , 10.0.0.1'', x_real_ip = HString ''10.0.0.1'',
      remoteAddress = Some ''::1'', title = JString ''Test'', content = JString ''Short.''\<rparr>"

definition sample_sanitize :: "json_value \<Rightarrow> json_value \<Rightarrow> screening_error + string \<times> string" where
  "sample_sanitize t c =
     (case (t, c) of
        (JString t', JString c') \<Rightarrow> Inr (t', c')
      | _ \<Rightarrow> Inl (ValidationError ''title and content must be strings''))"

definition sample_verify :: "string \<Rightarrow> string option" where
  "sample_verify authHeader = (if authHeader = ''Bearer alice'' then Some ''alice.near'' else None)"

definition sample_requestEval :: "string \<Rightarrow> string \<Rightarrow> screening_error + evaluation" where
  "sample_requestEval t c = Inr sample_document"

definition timed_out_requestEval :: "string \<Rightarrow> string \<Rightarrow> screening_error + evaluation" where
  "timed_out_requestEval t c = Inl (EvaluationError Timeout)"

definition sample_service :: "string \<Rightarrow> service_reply" where
  "sample_service prompt = Document sample_document"

definition exhausted_table :: rate_limit_map where
  "exhausted_table = [''203.0.113.9'' \<mapsto> \<lparr>count = 5, resetTime = 900000\<rparr>]"

section \<open>Properties of the rate limiter\<close>

lemma checkRateLimit_absent:
  "m key = None \<Longrightarrow>
   checkRateLimit now key m =
     (\<lparr>allowed = True, remaining = 4, retResetTime = None\<rparr>,
      m(key \<mapsto> \<lparr>count = 1, resetTime = now + 900000\<rparr>))"
  by (simp add: checkRateLimit_def RATE_LIMIT_MAX_REQUESTS_def RATE_LIMIT_WINDOW_def)

lemma checkRateLimit_elapsed:
  "m key = Some r \<Longrightarrow> now > resetTime r \<Longrightarrow>
   checkRateLimit now key m =
     (\<lparr>allowed = True, remaining = 4, retResetTime = None\<rparr>,
      m(key \<mapsto> \<lparr>count = 1, resetTime = now + 900000\<rparr>))"
  by (simp add: checkRateLimit_def RATE_LIMIT_MAX_REQUESTS_def RATE_LIMIT_WINDOW_def)

lemma checkRateLimit_exhausted:
  "m key = Some r \<Longrightarrow> \<not> now > resetTime r \<Longrightarrow> count r \<ge> 5 \<Longrightarrow>
   checkRateLimit now key m =
     (\<lparr>allowed = False, remaining = 0, retResetTime = Some (resetTime r)\<rparr>, m)"
  by (simp add: checkRateLimit_def RATE_LIMIT_MAX_REQUESTS_def)

lemma checkRateLimit_counted:
  "m key = Some r \<Longrightarrow> \<not> now > resetTime r \<Longrightarrow> count r < 5 \<Longrightarrow>
   checkRateLimit now key m =
     (\<lparr>allowed = True, remaining = 5 - (count r + 1), retResetTime = None\<rparr>,
      m(key \<mapsto> r\<lparr>count := count r + 1\<rparr>))"
  by (simp add: checkRateLimit_def RATE_LIMIT_MAX_REQUESTS_def)

text \<open>
  Claim C2. Every call of \<open>checkRateLimit\<close> falls in one of three cases, with
  \<open>W = 900000\<close> ms (15 minutes) and \<open>N = 5\<close>: (a) no record for the key, or the
  clock is past the record's \<open>resetTime\<close>: a fresh record \<open>count = 1\<close>,
  \<open>resetTime = now + W\<close> is stored and the call is allowed with \<open>remaining = N - 1\<close>;
  (b) otherwise, when \<open>count \<ge> N\<close>: the call is denied with \<open>remaining = 0\<close> and
  the record's \<open>resetTime\<close>, the table as it was; (c) otherwise the count is incremented
  and the call is allowed with \<open>remaining = N -\<close> the incremented count.
\<close>

theorem checkRateLimit_cases:
  "((m key = None \<or> (\<exists>r. m key = Some r \<and> now > resetTime r)) \<longrightarrow>
      checkRateLimit now key m =
        (\<lparr>allowed = True, remaining = 5 - 1, retResetTime = None\<rparr>,
         m(key \<mapsto> \<lparr>count = 1, resetTime = now + 15 * 60 * 1000\<rparr>)))
   \<and> (\<forall>r. m key = Some r \<and> \<not> now > resetTime r \<and> count r \<ge> 5 \<longrightarrow>
      checkRateLimit now key m =
        (\<lparr>allowed = False, remaining = 0, retResetTime = Some (resetTime r)\<rparr>, m))
   \<and> (\<forall>r. m key = Some r \<and> \<not> now > resetTime r \<and> \<not> count r \<ge> 5 \<longrightarrow>
      checkRateLimit now key m =
        (\<lparr>allowed = True, remaining = 5 - count (r\<lparr>count := count r + 1\<rparr>), retResetTime = None\<rparr>,
         m(key \<mapsto> r\<lparr>count := count r + 1\<rparr>)))"
proof (intro conjI allI impI)
  assume "m key = None \<or> (\<exists>r. m key = Some r \<and> now > resetTime r)"
  then show "checkRateLimit now key m =
        (\<lparr>allowed = True, remaining = 5 - 1, retResetTime = None\<rparr>,
         m(key \<mapsto> \<lparr>count = 1, resetTime = now + 15 * 60 * 1000\<rparr>))"
    using checkRateLimit_absent [of m key now] checkRateLimit_elapsed [of m key _ now]
    by auto
next
  fix r
  assume "m key = Some r \<and> \<not> now > resetTime r \<and> count r \<ge> 5"
  then show "checkRateLimit now key m =
        (\<lparr>allowed = False, remaining = 0, retResetTime = Some (resetTime r)\<rparr>, m)"
    by (simp add: checkRateLimit_exhausted)
next
  fix r
  assume "m key = Some r \<and> \<not> now > resetTime r \<and> \<not> count r \<ge> 5"
  then show "checkRateLimit now key m =
        (\<lparr>allowed = True, remaining = 5 - count (r\<lparr>count := count r + 1\<rparr>), retResetTime = None\<rparr>,
         m(key \<mapsto> r\<lparr>count := count r + 1\<rparr>))"
    by (simp add: checkRateLimit_counted)
qed

theorem checkRateLimit_cases_witness:
  "checkRateLimit 1000 ''10.0.0.7'' Map.empty =
     (\<lparr>allowed = True, remaining = 4, retResetTime = None\<rparr>,
      [''10.0.0.7'' \<mapsto> \<lparr>count = 1, resetTime = 901000\<rparr>])
   \<and> checkRateLimit 901001 ''10.0.0.7'' [''10.0.0.7'' \<mapsto> \<lparr>count = 5, resetTime = 901000\<rparr>] =
     (\<lparr>allowed = True, remaining = 4, retResetTime = None\<rparr>,
      [''10.0.0.7'' \<mapsto> \<lparr>count = 1, resetTime = 1801001\<rparr>])
   \<and> checkRateLimit 901000 ''10.0.0.7'' [''10.0.0.7'' \<mapsto> \<lparr>count = 5, resetTime = 901000\<rparr>] =
     (\<lparr>allowed = False, remaining = 0, retResetTime = Some 901000\<rparr>,
      [''10.0.0.7'' \<mapsto> \<lparr>count = 5, resetTime = 901000\<rparr>])
   \<and> checkRateLimit 2000 ''10.0.0.7'' [''10.0.0.7'' \<mapsto> \<lparr>count = 2, resetTime = 901000\<rparr>] =
     (\<lparr>allowed = True, remaining = 2, retResetTime = None\<rparr>,
      [''10.0.0.7'' \<mapsto> \<lparr>count = 3, resetTime = 901000\<rparr>])"
  using checkRateLimit_cases [of Map.empty "''10.0.0.7''" 1000]
    checkRateLimit_cases [of "[''10.0.0.7'' \<mapsto> \<lparr>count = 5, resetTime = 901000\<rparr>]" "''10.0.0.7''" 901001]
    checkRateLimit_cases [of "[''10.0.0.7'' \<mapsto> \<lparr>count = 5, resetTime = 901000\<rparr>]" "''10.0.0.7''" 901000]
    checkRateLimit_cases [of "[''10.0.0.7'' \<mapsto> \<lparr>count = 2, resetTime = 901000\<rparr>]" "''10.0.0.7''" 2000]
  by simp

text \<open>
  Claim C3. A key with no record makes \<open>N + 1 = 6\<close> consecutive calls, the later five
  at clock readings not past the \<open>resetTime\<close> the first call stored (\<open>t1 + W\<close>). The
  first five are allowed with \<open>remaining\<close> 4, 3, 2, 1, 0 and the sixth is denied (with
  \<open>remaining = 0\<close> and that \<open>resetTime\<close>).
\<close>

theorem checkRateLimit_fresh_window:
  assumes "m key = None"
    and "t2 \<le> t1 + 900000" and "t3 \<le> t1 + 900000" and "t4 \<le> t1 + 900000"
    and "t5 \<le> t1 + 900000" and "t6 \<le> t1 + 900000"
  shows "fst (checkRateLimit_calls key [t1, t2, t3, t4, t5, t6] m) =
           [\<lparr>allowed = True, remaining = 4, retResetTime = None\<rparr>,
            \<lparr>allowed = True, remaining = 3, retResetTime = None\<rparr>,
            \<lparr>allowed = True, remaining = 2, retResetTime = None\<rparr>,
            \<lparr>allowed = True, remaining = 1, retResetTime = None\<rparr>,
            \<lparr>allowed = True, remaining = 0, retResetTime = None\<rparr>,
            \<lparr>allowed = False, remaining = 0, retResetTime = Some (t1 + 900000)\<rparr>]"
  using assms
  by (simp add: checkRateLimit_def RATE_LIMIT_MAX_REQUESTS_def RATE_LIMIT_WINDOW_def)

theorem checkRateLimit_fresh_window_witness:
  "fst (checkRateLimit_calls ''203.0.113.9'' [0, 10, 20, 30, 899999, 900000] Map.empty) =
           [\<lparr>allowed = True, remaining = 4, retResetTime = None\<rparr>,
            \<lparr>allowed = True, remaining = 3, retResetTime = None\<rparr>,
            \<lparr>allowed = True, remaining = 2, retResetTime = None\<rparr>,
            \<lparr>allowed = True, remaining = 1, retResetTime = None\<rparr>,
            \<lparr>allowed = True, remaining = 0, retResetTime = None\<rparr>,
            \<lparr>allowed = False, remaining = 0, retResetTime = Some 900000\<rparr>]"
  using checkRateLimit_fresh_window [of Map.empty "''203.0.113.9''" 10 0 20 30 899999 900000]
  by simp

text \<open>
  Claim C4. Once the clock is strictly past a record's \<open>resetTime\<close>, whatever its
  count, a call for that key gives exactly what it gives on the table without the record:
  it is allowed with \<open>remaining = N - 1 = 4\<close> and the key's record is replaced by
  \<open>count = 1\<close>, \<open>resetTime = now + W\<close>; the other keys keep their records.
\<close>

theorem checkRateLimit_after_reset:
  assumes "m key = Some r" and "now > resetTime r"
  shows "checkRateLimit now key m = checkRateLimit now key (m(key := None))
         \<and> fst (checkRateLimit now key m) = \<lparr>allowed = True, remaining = 4, retResetTime = None\<rparr>
         \<and> snd (checkRateLimit now key m) = m(key \<mapsto> \<lparr>count = 1, resetTime = now + 900000\<rparr>)"
  using assms
  by (simp add: checkRateLimit_def RATE_LIMIT_MAX_REQUESTS_def RATE_LIMIT_WINDOW_def)

theorem checkRateLimit_after_reset_witness:
  "checkRateLimit 901001 ''203.0.113.9'' [''203.0.113.9'' \<mapsto> \<lparr>count = 5, resetTime = 901000\<rparr>]
     = checkRateLimit 901001 ''203.0.113.9'' Map.empty
   \<and> fst (checkRateLimit 901001 ''203.0.113.9'' [''203.0.113.9'' \<mapsto> \<lparr>count = 5, resetTime = 901000\<rparr>])
     = \<lparr>allowed = True, remaining = 4, retResetTime = None\<rparr>
   \<and> snd (checkRateLimit 901001 ''203.0.113.9'' [''203.0.113.9'' \<mapsto> \<lparr>count = 5, resetTime = 901000\<rparr>])
     = [''203.0.113.9'' \<mapsto> \<lparr>count = 1, resetTime = 1801001\<rparr>]"
  using checkRateLimit_after_reset
    [of "[''203.0.113.9'' \<mapsto> \<lparr>count = 5, resetTime = 901000\<rparr>]" "''203.0.113.9''"
        "\<lparr>count = 5, resetTime = 901000\<rparr>" 901001]
  by (simp add: checkRateLimit_absent)

text \<open>
  Claim C10. A call that is denied leaves the whole table as it was: the denied key
  keeps its count and \<open>resetTime\<close>, and no other key's record appears, changes or goes.
\<close>

theorem checkRateLimit_denied_frame:
  assumes "allowed (fst (checkRateLimit now key m)) = False"
  shows "snd (checkRateLimit now key m) = m"
  using assms
  by (auto simp: checkRateLimit_def split: option.splits if_splits)

theorem checkRateLimit_denied_frame_witness:
  "allowed (fst (checkRateLimit 5000 ''a''
       [''a'' \<mapsto> \<lparr>count = 5, resetTime = 901000\<rparr>, ''b'' \<mapsto> \<lparr>count = 2, resetTime = 7000\<rparr>])) = False
   \<and> snd (checkRateLimit 5000 ''a''
       [''a'' \<mapsto> \<lparr>count = 5, resetTime = 901000\<rparr>, ''b'' \<mapsto> \<lparr>count = 2, resetTime = 7000\<rparr>])
     = [''a'' \<mapsto> \<lparr>count = 5, resetTime = 901000\<rparr>, ''b'' \<mapsto> \<lparr>count = 2, resetTime = 7000\<rparr>]"
proof -
  have denied: "allowed (fst (checkRateLimit 5000 ''a''
       [''a'' \<mapsto> \<lparr>count = 5, resetTime = 901000\<rparr>, ''b'' \<mapsto> \<lparr>count = 2, resetTime = 7000\<rparr>])) = False"
    by (simp add: checkRateLimit_def RATE_LIMIT_MAX_REQUESTS_def)
  from checkRateLimit_denied_frame [OF denied] denied show ?thesis
    by simp
qed

section \<open>Properties of the client identifier\<close>

lemma js_split_nonempty: "js_split sep s \<noteq> []"
  by (induction s) (auto split: list.splits)

lemma hd_js_split: "hd (js_split sep s) = takeWhile (\<lambda>c. c \<noteq> sep) s"
  by (induction s) (auto split: list.splits simp: js_split_nonempty)

text \<open>\<open>trim\<close> takes white space off both ends and nothing else.\<close>

lemma trim_is_middle:
  "\<exists>pre post. s = pre @ trim s @ post \<and> list_all is_whitespace pre \<and> list_all is_whitespace post"
proof -
  let ?d = "dropWhile is_whitespace s"
  let ?r = "dropWhile is_whitespace (rev ?d)"
  have 1: "s = takeWhile is_whitespace s @ ?d" by simp
  have "rev ?d = takeWhile is_whitespace (rev ?d) @ ?r" by simp
  then have 2: "?d = rev ?r @ rev (takeWhile is_whitespace (rev ?d))"
    by (metis rev_append rev_rev_ident)
  have 3: "list_all is_whitespace (takeWhile is_whitespace s)"
    by (simp add: list_all_iff) (meson set_takeWhileD)
  have 4: "list_all is_whitespace (rev (takeWhile is_whitespace (rev ?d)))"
    by (simp add: list_all_iff) (meson set_takeWhileD)
  have "s = takeWhile is_whitespace s @ trim s @ rev (takeWhile is_whitespace (rev ?d))"
    using 1 2 by (simp add: trim_def)
  then show ?thesis using 3 4 by blast
qed

lemma trim_no_outer_whitespace:
  "trim s = [] \<or> (\<not> is_whitespace (hd (trim s)) \<and> \<not> is_whitespace (last (trim s)))"
proof (cases "trim s = []")
  case True
  then show ?thesis by simp
next
  case False
  let ?d = "dropWhile is_whitespace s"
  let ?r = "dropWhile is_whitespace (rev ?d)"
  have r: "?r \<noteq> []" using False by (simp add: trim_def)
  have d: "?d \<noteq> []"
  proof
    assume e: "?d = []"
    have "?r = []" unfolding e by simp
    with r show False by simp
  qed
  have l: "\<not> is_whitespace (hd ?r)" using r by (rule hd_dropWhile)
  have f: "\<not> is_whitespace (hd ?d)" using d by (rule hd_dropWhile)
  have h: "hd (trim s) = hd ?d"
  proof -
    have "rev ?d = takeWhile is_whitespace (rev ?d) @ ?r" by simp
    then have "?d = rev ?r @ rev (takeWhile is_whitespace (rev ?d))"
      by (metis rev_append rev_rev_ident)
    then have "hd ?d = hd (rev ?r)" using r by (metis hd_append2 rev_is_Nil_conv)
    then show ?thesis by (simp add: trim_def)
  qed
  show ?thesis using l h f r
    by (simp add: trim_def last_rev)
qed

lemma getClientIdentifier_authorization [simp]:
  "getClientIdentifier (req\<lparr>authorization := a\<rparr>) = getClientIdentifier req"
  by (simp add: getClientIdentifier_def split: header_value.splits)

section \<open>Properties of the responses\<close>

lemma toString_MAX: "toString RATE_LIMIT_MAX_REQUESTS = ''5''"
  by (simp add: RATE_LIMIT_MAX_REQUESTS_def toString_def digits.simps digit_char_def)

lemma headers_send_json [simp]: "headers (send_json code b res) = headers res"
  by (simp add: send_json_def)

lemma status_send_json [simp]: "status (send_json code b res) = code"
  by (simp add: send_json_def)

lemma body_send_json [simp]: "body (send_json code b res) = b"
  by (simp add: send_json_def)

lemma headers_respondWithScreeningError [simp]:
  "headers (respondWithScreeningError res err fb) = headers res"
  by (simp add: respondWithScreeningError_def Let_def split: screening_error.splits)

lemma status_respondWithScreeningError:
  "status (respondWithScreeningError res err fb) \<in> {400, 500, 502}"
  by (simp add: respondWithScreeningError_def Let_def split: screening_error.splits)

lemma body_respondWithScreeningError:
  "body (respondWithScreeningError res err fb) \<noteq> EvaluationBody ev acct"
  by (simp add: respondWithScreeningError_def Let_def split: screening_error.splits)

lemma headers_evaluateAndRespond [simp]:
  "headers (evaluateAndRespond sanitize requestEval acct req res) = headers res"
  by (simp add: evaluateAndRespond_def split: sum.splits prod.splits)

lemma status_evaluateAndRespond:
  "status (evaluateAndRespond sanitize requestEval acct req res) \<in> {200, 400, 500, 502}"
  using status_respondWithScreeningError
  by (auto simp: evaluateAndRespond_def split: sum.splits prod.splits)

lemma body_evaluateAndRespond:
  assumes "body (evaluateAndRespond sanitize requestEval accountId req res) = EvaluationBody ev acct"
  shows "\<exists>t c. sanitize (title req) (content req) = Inr (t, c) \<and> requestEval t c = Inr ev \<and> acct = accountId"
  using assms body_respondWithScreeningError
  by (auto simp: evaluateAndRespond_def split: sum.splits prod.splits)

lemma map_of_filter_other:
  "map_of (filter (\<lambda>h. fst h \<noteq> name) hs) name' = (if name' = name then None else map_of hs name')"
  by (induction hs) auto

lemma getHeader_setHeader:
  "getHeader (setHeader name v res) name' = (if name' = name then Some v else getHeader res name')"
  by (simp add: getHeader_def setHeader_def map_of_filter_other)

lemma getHeader_send_json [simp]: "getHeader (send_json code b res) name = getHeader res name"
  by (simp add: getHeader_def)

lemma getHeader_evaluateAndRespond [simp]:
  "getHeader (evaluateAndRespond sanitize requestEval acct req res) name = getHeader res name"
  by (simp add: getHeader_def)

lemma ceiling_div_int: "\<lceil>real_of_int a / real_of_int b\<rceil> = - ((- a) div b)"
proof -
  have "\<lceil>real_of_int a / real_of_int b\<rceil> = - \<lfloor>- (real_of_int a / real_of_int b)\<rfloor>"
    by (simp add: ceiling_def)
  also have "- (real_of_int a / real_of_int b) = real_of_int (- a) / real_of_int b"
    by simp
  also have "\<lfloor>real_of_int (- a) / real_of_int b\<rfloor> = (- a) div b"
    by (rule floor_divide_of_int_eq)
  finally show ?thesis .
qed

lemma retryAfterSeconds_Some:
  "t \<noteq> 0 \<Longrightarrow> retryAfterSeconds (Some t) now = - ((now - t) div 1000)"
  using ceiling_div_int [of "t - now" 1000] by (simp add: retryAfterSeconds_def)

lemma rateLimitMessage_895:
  "rateLimitMessage 895 =
     ''You'' @ [CHR 0x27] @ ''ve reached the limit of 5 free evaluations. Please try again in 15 minutes or connect your NEAR wallet for unlimited evaluations.''"
  using ceiling_div_int [of 895 60]
  by (simp add: rateLimitMessage_def toString_def digits.simps digit_char_def RATE_LIMIT_MAX_REQUESTS_def)

section \<open>The handler, path by path\<close>

lemma resolveIdentity_verified:
  "authorization req = Some authHeader \<Longrightarrow> authHeader \<noteq> [] \<Longrightarrow>
   verifyNearAuth authHeader = Some account \<Longrightarrow>
   resolveIdentity verifyNearAuth req = (True, Some account)"
  by (simp add: resolveIdentity_def)

lemma resolveIdentity_rejected:
  "authorization req = Some authHeader \<Longrightarrow> verifyNearAuth authHeader = None \<Longrightarrow>
   resolveIdentity verifyNearAuth req = (False, None)"
  by (simp add: resolveIdentity_def)

lemma resolveIdentity_no_header:
  "resolveIdentity verifyNearAuth (req\<lparr>authorization := None\<rparr>) = (False, None)"
  by (simp add: resolveIdentity_def)

lemma resolveIdentity_anonymous:
  "\<not> fst (resolveIdentity verifyNearAuth req) \<Longrightarrow> resolveIdentity verifyNearAuth req = (False, None)"
  by (auto simp: resolveIdentity_def split: option.splits if_splits)

lemma handler_not_POST:
  "method' req \<noteq> ''POST'' \<Longrightarrow>
   handler verifyNearAuth sanitize requestEval now1 now2 req res m =
     (send_json 405 (ErrorBody ''Method not allowed'') res, m)"
  by (simp add: handler_def)

lemma handler_authenticated:
  "method' req = ''POST'' \<Longrightarrow> resolveIdentity verifyNearAuth req = (True, acct) \<Longrightarrow>
   handler verifyNearAuth sanitize requestEval now1 now2 req res m =
     (evaluateAndRespond sanitize requestEval acct req res, m)"
  by (simp add: handler_def)

lemma handler_anonymous:
  assumes "method' req = ''POST''" and "\<not> fst (resolveIdentity verifyNearAuth req)"
  shows "handler verifyNearAuth sanitize requestEval now1 now2 req res m =
     (let r = fst (checkRateLimit now1 (getClientIdentifier req) m);
          res2 = setHeader ''X-RateLimit-Limit'' (toString RATE_LIMIT_MAX_REQUESTS)
                   (setHeader ''X-RateLimit-Remaining'' (toString (remaining r)) res)
      in (if allowed r then evaluateAndRespond sanitize requestEval None req res2
          else send_json 429
                 (RateLimitBody ''Rate limit exceeded''
                    (rateLimitMessage (retryAfterSeconds (retResetTime r) now2))
                    (retryAfterSeconds (retResetTime r) now2))
                 (setHeader ''Retry-After'' (toString (retryAfterSeconds (retResetTime r) now2)) res2),
          snd (checkRateLimit now1 (getClientIdentifier req) m)))"
  using assms(1) resolveIdentity_anonymous [OF assms(2)]
  by (simp add: handler_def Let_def split: prod.splits)

lemma body_handler:
  assumes "body (fst (handler verifyNearAuth sanitize requestEval now1 now2 req res m)) = EvaluationBody ev acct"
  shows "\<exists>t c. sanitize (title req) (content req) = Inr (t, c) \<and> requestEval t c = Inr ev"
proof (cases "method' req = ''POST''")
  case False
  with assms show ?thesis by (simp add: handler_not_POST)
next
  case True
  show ?thesis
  proof (cases "fst (resolveIdentity verifyNearAuth req)")
    case True
    then obtain a where "resolveIdentity verifyNearAuth req = (True, a)"
      by (cases "resolveIdentity verifyNearAuth req") simp
    with assms \<open>method' req = ''POST''\<close> show ?thesis
      using body_evaluateAndRespond by (fastforce simp: handler_authenticated)
  next
    case False
    with assms \<open>method' req = ''POST''\<close> show ?thesis
      using body_evaluateAndRespond
      by (fastforce simp: handler_anonymous Let_def split: if_splits)
  qed
qed

text \<open>
  On every table the server can hold, the clock is not before the epoch, and every record's
  \<open>resetTime\<close> is positive and at most one window ahead of the clock.
\<close>

lemma reachable_invariant:
  "reachable t m \<Longrightarrow>
   0 \<le> t \<and> (\<forall>key r. m key = Some r \<longrightarrow> 0 < resetTime r \<and> resetTime r \<le> t + 900000)"
proof (induction rule: reachable.induct)
  case (start t)
  then show ?case by simp
next
  case (call t m now key)
  then show ?case
    by (fastforce simp: checkRateLimit_def RATE_LIMIT_WINDOW_def split: option.splits if_splits)
next
  case (sweep t m now)
  then show ?case
    by (fastforce simp: cleanup_def split: option.splits if_splits)
qed

lemma checkRateLimit_denied_record:
  assumes "\<not> allowed (fst (checkRateLimit now key m))"
  obtains r where "m key = Some r" and "\<not> now > resetTime r" and "count r \<ge> 5"
    and "retResetTime (fst (checkRateLimit now key m)) = Some (resetTime r)"
    and "remaining (fst (checkRateLimit now key m)) = 0"
  using assms
  by (auto simp: checkRateLimit_def RATE_LIMIT_MAX_REQUESTS_def split: option.splits if_splits)

lemma reachable_exhausted_table: "reachable 5000 exhausted_table"
proof -
  let ?k = "''203.0.113.9''"
  let ?m1 = "snd (checkRateLimit 0 ?k Map.empty)"
  let ?m2 = "snd (checkRateLimit 10 ?k ?m1)"
  let ?m3 = "snd (checkRateLimit 20 ?k ?m2)"
  let ?m4 = "snd (checkRateLimit 30 ?k ?m3)"
  let ?m5 = "snd (checkRateLimit 40 ?k ?m4)"
  have r0: "reachable 0 Map.empty" by (rule reachable.start) simp
  have r1: "reachable 0 ?m1" by (rule reachable.call [OF r0]) simp
  have r2: "reachable 10 ?m2" by (rule reachable.call [OF r1]) simp
  have r3: "reachable 20 ?m3" by (rule reachable.call [OF r2]) simp
  have r4: "reachable 30 ?m4" by (rule reachable.call [OF r3]) simp
  have r5: "reachable 40 ?m5" by (rule reachable.call [OF r4]) simp
  have r6: "reachable 5000 (snd (checkRateLimit 5000 ?k ?m5))"
    by (rule reachable.call [OF r5]) simp
  then show ?thesis
    by (simp add: checkRateLimit_def RATE_LIMIT_MAX_REQUESTS_def RATE_LIMIT_WINDOW_def exhausted_table_def)
qed

lemmas sample_defs = sample_document_def sample_request_def sample_sanitize_def sample_verify_def
  sample_requestEval_def timed_out_requestEval_def sample_service_def
  exhausted_table_def new_response_def

lemmas run_defs = handler_def resolveIdentity_def getClientIdentifier_def checkRateLimit_def
  evaluateAndRespond_def respondWithScreeningError_def send_json_def setHeader_def getHeader_def
  requestEvaluation_def recompute_def quality_passes_def bool_score_def
  RATE_LIMIT_MAX_REQUESTS_def RATE_LIMIT_WINDOW_def trim_def is_whitespace_def
  toString_def digits.simps digit_char_def Let_def

section \<open>Properties of the gateway\<close>

text \<open>
  Claim C9. The key under which a request is rate limited: when \<^verbatim>\<open>x-forwarded-for\<close>
  is a string, its part before the first comma, trimmed; otherwise \<^verbatim>\<open>x-real-ip\<close> when
  that is a string; otherwise the socket's remote address when it is a non-empty string;
  otherwise \<open>''unknown''\<close>. It is the key of the handler's one call of
  \<open>checkRateLimit\<close>, made for a POST request that is not authenticated.
\<close>

theorem getClientIdentifier_cases:
  "(\<forall>forwarded. x_forwarded_for req = HString forwarded \<longrightarrow>
      getClientIdentifier req = trim (takeWhile (\<lambda>c. c \<noteq> CHR '','') forwarded))
   \<and> ((\<forall>forwarded. x_forwarded_for req \<noteq> HString forwarded) \<longrightarrow>
        (\<forall>realIp. x_real_ip req = HString realIp \<longrightarrow> getClientIdentifier req = realIp))
   \<and> ((\<forall>forwarded. x_forwarded_for req \<noteq> HString forwarded) \<and>
        (\<forall>realIp. x_real_ip req \<noteq> HString realIp) \<longrightarrow>
        getClientIdentifier req =
          (case remoteAddress req of
             None \<Rightarrow> ''unknown''
           | Some addr \<Rightarrow> if addr = [] then ''unknown'' else addr))
   \<and> (method' req = ''POST'' \<and> \<not> fst (resolveIdentity verifyNearAuth req) \<longrightarrow>
        snd (handler verifyNearAuth sanitize requestEval now1 now2 req res m) =
        snd (checkRateLimit now1 (getClientIdentifier req) m))"
proof (intro conjI allI impI)
  fix forwarded
  assume "x_forwarded_for req = HString forwarded"
  then show "getClientIdentifier req = trim (takeWhile (\<lambda>c. c \<noteq> CHR '','') forwarded)"
    by (simp add: getClientIdentifier_def hd_js_split)
next
  fix realIp
  assume "\<forall>forwarded. x_forwarded_for req \<noteq> HString forwarded" and "x_real_ip req = HString realIp"
  then show "getClientIdentifier req = realIp"
    by (simp add: getClientIdentifier_def split: header_value.splits)
next
  assume "(\<forall>forwarded. x_forwarded_for req \<noteq> HString forwarded) \<and>
        (\<forall>realIp. x_real_ip req \<noteq> HString realIp)"
  then show "getClientIdentifier req =
          (case remoteAddress req of
             None \<Rightarrow> ''unknown''
           | Some addr \<Rightarrow> if addr = [] then ''unknown'' else addr)"
    by (simp add: getClientIdentifier_def split: header_value.splits)
next
  assume "method' req = ''POST'' \<and> \<not> fst (resolveIdentity verifyNearAuth req)"
  then show "snd (handler verifyNearAuth sanitize requestEval now1 now2 req res m) =
        snd (checkRateLimit now1 (getClientIdentifier req) m)"
    by (simp add: handler_anonymous Let_def)
qed

theorem getClientIdentifier_cases_witness:
  "getClientIdentifier sample_request = ''203.0.113.9''
   \<and> getClientIdentifier (sample_request\<lparr>x_forwarded_for := HArray [''198.51.100.1'', ''198.51.100.2'']\<rparr>)
       = ''10.0.0.1''
   \<and> getClientIdentifier (sample_request\<lparr>x_forwarded_for := HUndefined, x_real_ip := HUndefined\<rparr>) = ''::1''
   \<and> getClientIdentifier
        (sample_request\<lparr>x_forwarded_for := HUndefined, x_real_ip := HUndefined, remoteAddress := None\<rparr>)
       = ''unknown''
   \<and> snd (handler sample_verify sample_sanitize sample_requestEval 1000 1001
            sample_request new_response Map.empty)
       = [''203.0.113.9'' \<mapsto> \<lparr>count = 1, resetTime = 901000\<rparr>]"
  using
    getClientIdentifier_cases [where req = sample_request and verifyNearAuth = sample_verify
      and sanitize = sample_sanitize and requestEval = sample_requestEval
      and ?now1.0 = 1000 and ?now2.0 = 1001 and res = new_response and m = Map.empty]
    getClientIdentifier_cases
      [where req = "sample_request\<lparr>x_forwarded_for := HArray [''198.51.100.1'', ''198.51.100.2'']\<rparr>"]
    getClientIdentifier_cases
      [where req = "sample_request\<lparr>x_forwarded_for := HUndefined, x_real_ip := HUndefined\<rparr>"]
    getClientIdentifier_cases
      [where req = "sample_request\<lparr>x_forwarded_for := HUndefined, x_real_ip := HUndefined,
                                   remoteAddress := None\<rparr>"]
  by (simp add: sample_defs run_defs)

text \<open>
  Claim C5. A request whose credential is verified never reaches the rate limiter: the
  table comes back as it went in, the response does not depend on the table or on the
  clock (so not on how many requests the client has made), its status is never 429, and no
  header is added to it.
\<close>

theorem authenticated_bypasses_rate_limiter:
  assumes "authorization req = Some authHeader" and "authHeader \<noteq> []"
    and "verifyNearAuth authHeader = Some account"
  shows "snd (handler verifyNearAuth sanitize requestEval now1 now2 req res m) = m
         \<and> fst (handler verifyNearAuth sanitize requestEval now1 now2 req res m) =
           fst (handler verifyNearAuth sanitize requestEval now1' now2' req res m')
         \<and> status (fst (handler verifyNearAuth sanitize requestEval now1 now2 req res m)) \<noteq> 429
         \<and> headers (fst (handler verifyNearAuth sanitize requestEval now1 now2 req res m)) = headers res"
proof (cases "method' req = ''POST''")
  case True
  have auth: "resolveIdentity verifyNearAuth req = (True, Some account)"
    using assms by (rule resolveIdentity_verified)
  have "status (evaluateAndRespond sanitize requestEval (Some account) req res) \<in> {200, 400, 500, 502}"
    by (rule status_evaluateAndRespond)
  then have "status (evaluateAndRespond sanitize requestEval (Some account) req res) \<noteq> 429"
    by auto
  then show ?thesis
    by (simp add: handler_authenticated [OF True auth])
next
  case False
  then show ?thesis
    by (simp add: handler_not_POST)
qed

theorem authenticated_bypasses_rate_limiter_witness:
  "\<not> allowed (fst (checkRateLimit 5000 (getClientIdentifier sample_request) exhausted_table))
   \<and> handler sample_verify sample_sanitize sample_requestEval 5000 5001
        (sample_request\<lparr>authorization := Some ''Bearer alice''\<rparr>) new_response exhausted_table
     = (\<lparr>status = 200, headers = [], body = EvaluationBody sample_document (Some ''alice.near'')\<rparr>,
        exhausted_table)"
proof -
  have h1: "authorization (sample_request\<lparr>authorization := Some ''Bearer alice''\<rparr>) = Some ''Bearer alice''"
    by simp
  have h2: "''Bearer alice'' \<noteq> []"
    by simp
  have h3: "sample_verify ''Bearer alice'' = Some ''alice.near''"
    by (simp add: sample_verify_def)
  from authenticated_bypasses_rate_limiter
         [where verifyNearAuth = sample_verify and authHeader = "''Bearer alice''"
            and sanitize = sample_sanitize and requestEval = sample_requestEval
            and ?now1.0 = 5000 and ?now2.0 = 5001 and res = new_response and m = exhausted_table,
          OF h1 h2 h3]
  show ?thesis
    by (simp add: sample_defs run_defs)
qed

text \<open>
  Claim C6. A request whose credential is rejected by the verification is handled exactly
  as the same request without the credential: same response, same table. For a POST that
  means the rate limiter is consulted under the request's client identifier, a denial is
  answered 429, and an admitted request goes on to the sanitizer and the evaluation; no
  response of the handler reports the failed verification.
\<close>

theorem failed_verification_is_anonymous:
  assumes "authorization req = Some authHeader" and "verifyNearAuth authHeader = None"
  shows "handler verifyNearAuth sanitize requestEval now1 now2 req res m =
           handler verifyNearAuth sanitize requestEval now1 now2 (req\<lparr>authorization := None\<rparr>) res m
         \<and> (method' req = ''POST'' \<longrightarrow>
              snd (handler verifyNearAuth sanitize requestEval now1 now2 req res m) =
                snd (checkRateLimit now1 (getClientIdentifier req) m)
              \<and> (\<not> allowed (fst (checkRateLimit now1 (getClientIdentifier req) m)) \<longrightarrow>
                   status (fst (handler verifyNearAuth sanitize requestEval now1 now2 req res m)) = 429)
              \<and> (allowed (fst (checkRateLimit now1 (getClientIdentifier req) m)) \<longrightarrow>
                   fst (handler verifyNearAuth sanitize requestEval now1 now2 req res m) =
                     evaluateAndRespond sanitize requestEval None req
                       (setHeader ''X-RateLimit-Limit'' (toString RATE_LIMIT_MAX_REQUESTS)
                          (setHeader ''X-RateLimit-Remaining''
                             (toString (remaining (fst (checkRateLimit now1 (getClientIdentifier req) m))))
                             res))))"
proof (cases "method' req = ''POST''")
  case True
  have anon: "\<not> fst (resolveIdentity verifyNearAuth req)"
    using assms by (simp add: resolveIdentity_rejected)
  have anon': "\<not> fst (resolveIdentity verifyNearAuth (req\<lparr>authorization := None\<rparr>))"
    by (simp add: resolveIdentity_no_header)
  have True': "method' (req\<lparr>authorization := None\<rparr>) = ''POST''"
    using True by simp
  have same: "evaluateAndRespond sanitize requestEval None (req\<lparr>authorization := None\<rparr>) =
              evaluateAndRespond sanitize requestEval None req"
    by (rule ext) (simp add: evaluateAndRespond_def)
  show ?thesis
    by (simp add: handler_anonymous [OF True anon] handler_anonymous [OF True' anon'] same Let_def)
next
  case False
  then show ?thesis
    by (simp add: handler_not_POST)
qed

theorem failed_verification_is_anonymous_witness:
  "handler sample_verify sample_sanitize sample_requestEval 1000 1001
        (sample_request\<lparr>authorization := Some ''Bearer expired''\<rparr>) new_response Map.empty
     = handler sample_verify sample_sanitize sample_requestEval 1000 1001
        sample_request new_response Map.empty
   \<and> handler sample_verify sample_sanitize sample_requestEval 1000 1001
        (sample_request\<lparr>authorization := Some ''Bearer expired''\<rparr>) new_response Map.empty
     = (\<lparr>status = 200,
         headers = [(''X-RateLimit-Limit'', ''5''), (''X-RateLimit-Remaining'', ''4'')],
         body = EvaluationBody sample_document None\<rparr>,
        [''203.0.113.9'' \<mapsto> \<lparr>count = 1, resetTime = 901000\<rparr>])
   \<and> status (fst (handler sample_verify sample_sanitize sample_requestEval 5000 5001
        (sample_request\<lparr>authorization := Some ''Bearer expired''\<rparr>) new_response exhausted_table))
     = 429"
proof -
  have h1: "authorization (sample_request\<lparr>authorization := Some ''Bearer expired''\<rparr>) = Some ''Bearer expired''"
    by simp
  have h2: "sample_verify ''Bearer expired'' = None"
    by (simp add: sample_verify_def)
  have anon: "sample_request\<lparr>authorization := None\<rparr> = sample_request"
    by (simp add: sample_request_def)
  from failed_verification_is_anonymous
         [where verifyNearAuth = sample_verify and authHeader = "''Bearer expired''"
            and sanitize = sample_sanitize and requestEval = sample_requestEval
            and ?now1.0 = 1000 and ?now2.0 = 1001 and res = new_response and m = Map.empty,
          OF h1 h2]
       failed_verification_is_anonymous
         [where verifyNearAuth = sample_verify and authHeader = "''Bearer expired''"
            and sanitize = sample_sanitize and requestEval = sample_requestEval
            and ?now1.0 = 5000 and ?now2.0 = 5001 and res = new_response and m = exhausted_table,
          OF h1 h2]
  show ?thesis
    by (simp add: anon) (simp add: sample_defs run_defs)
qed

text \<open>
  Claim C8. The handler resolves the identity of POST requests only: any other method is
  answered 405 by its first statement, before the identity is looked at and before the
  rate limiter runs. Every request it finds unauthenticated gets both quota headers on
  its response, whether the rate-limit check allows or denies it and whatever the later
  steps answer: \<^verbatim>\<open>X-RateLimit-Remaining\<close> is the \<open>remaining\<close> of the check and
  \<^verbatim>\<open>X-RateLimit-Limit\<close> is 5.
\<close>

theorem anonymous_quota_headers:
  assumes "method' req = ''POST''" and "\<not> fst (resolveIdentity verifyNearAuth req)"
  shows "getHeader (fst (handler verifyNearAuth sanitize requestEval now1 now2 req res m))
             ''X-RateLimit-Remaining''
           = Some (toString (remaining (fst (checkRateLimit now1 (getClientIdentifier req) m))))
         \<and> getHeader (fst (handler verifyNearAuth sanitize requestEval now1 now2 req res m))
             ''X-RateLimit-Limit''
           = Some ''5''"
  by (simp add: handler_anonymous [OF assms] Let_def getHeader_setHeader toString_MAX)

theorem anonymous_quota_headers_witness:
  "fst (handler sample_verify sample_sanitize timed_out_requestEval 1000 1001
          sample_request new_response Map.empty)
     = \<lparr>status = 502,
        headers = [(''X-RateLimit-Limit'', ''5''), (''X-RateLimit-Remaining'', ''4'')],
        body = ErrorBody ''Failed to evaluate proposal''\<rparr>
   \<and> status (fst (handler sample_verify sample_sanitize timed_out_requestEval 5000 5001
          sample_request new_response exhausted_table)) = 429
   \<and> getHeader (fst (handler sample_verify sample_sanitize timed_out_requestEval 5000 5001
          sample_request new_response exhausted_table)) ''X-RateLimit-Remaining'' = Some ''0''
   \<and> getHeader (fst (handler sample_verify sample_sanitize timed_out_requestEval 5000 5001
          sample_request new_response exhausted_table)) ''X-RateLimit-Limit'' = Some ''5''"
proof -
  have h1: "method' sample_request = ''POST''"
    by (simp add: sample_request_def)
  have h2: "\<not> fst (resolveIdentity sample_verify sample_request)"
    by (simp add: resolveIdentity_def sample_request_def)
  from anonymous_quota_headers
         [where verifyNearAuth = sample_verify and req = sample_request and sanitize = sample_sanitize
            and requestEval = timed_out_requestEval
            and ?now1.0 = 1000 and ?now2.0 = 1001 and res = new_response and m = Map.empty,
          OF h1 h2]
       anonymous_quota_headers
         [where verifyNearAuth = sample_verify and req = sample_request and sanitize = sample_sanitize
            and requestEval = timed_out_requestEval
            and ?now1.0 = 5000 and ?now2.0 = 5001 and res = new_response and m = exhausted_table,
          OF h1 h2]
  show ?thesis
    by (simp add: sample_defs run_defs retryAfterSeconds_Some)
qed

text \<open>
  Claim C7. On a table the server can hold, with the clock not running backwards between
  the table's last change, the reading inside \<open>checkRateLimit\<close> (\<open>now1\<close>) and the
  reading of the retry-after computation (\<open>now2\<close>): an unauthenticated POST that the
  rate limiter denies is answered 429 with the body \<^verbatim>\<open>{ error, message, retryAfter }\<close>,
  where \<open>retryAfter\<close> is the ceiling of \<open>(resetTime - now2) / 1000\<close> for the
  \<open>resetTime\<close> of the client's record, is at most 900, and is also the value of the
  \<^verbatim>\<open>Retry-After\<close> header.
\<close>

theorem denied_response:
  assumes "reachable t m" and "t \<le> now1" and "now1 \<le> now2"
    and "method' req = ''POST''" and "\<not> fst (resolveIdentity verifyNearAuth req)"
    and "\<not> allowed (fst (checkRateLimit now1 (getClientIdentifier req) m))"
  shows "\<exists>record secs.
           m (getClientIdentifier req) = Some record
           \<and> secs = \<lceil>real_of_int (resetTime record - now2) / 1000\<rceil>
           \<and> secs \<le> 900
           \<and> status (fst (handler verifyNearAuth sanitize requestEval now1 now2 req res m)) = 429
           \<and> body (fst (handler verifyNearAuth sanitize requestEval now1 now2 req res m)) =
               RateLimitBody ''Rate limit exceeded'' (rateLimitMessage secs) secs
           \<and> getHeader (fst (handler verifyNearAuth sanitize requestEval now1 now2 req res m)) ''Retry-After'' =
               Some (toString secs)"
proof -
  from assms(6) obtain r where
    r: "m (getClientIdentifier req) = Some r"
    and ret: "retResetTime (fst (checkRateLimit now1 (getClientIdentifier req) m)) = Some (resetTime r)"
    by (rule checkRateLimit_denied_record)
  from reachable_invariant [OF assms(1)] r
  have pos: "0 < resetTime r" and le: "resetTime r \<le> t + 900000"
    by auto
  let ?secs = "\<lceil>real_of_int (resetTime r - now2) / 1000\<rceil>"
  have secs: "retryAfterSeconds (Some (resetTime r)) now2 = ?secs"
    using pos by (simp add: retryAfterSeconds_def)
  have "resetTime r - now2 \<le> 900000"
    using le assms(2,3) by linarith
  then have "real_of_int (resetTime r - now2) / 1000 \<le> real_of_int 900"
    by simp
  then have bound: "?secs \<le> 900"
    by (simp only: ceiling_le_iff)
  show ?thesis
    using r bound assms(6)
    by (simp add: handler_anonymous [OF assms(4,5)] Let_def ret secs getHeader_setHeader)
qed

theorem denied_response_witness:
  "reachable 5000 exhausted_table
   \<and> \<not> allowed (fst (checkRateLimit 5000 (getClientIdentifier sample_request) exhausted_table))
   \<and> exhausted_table (getClientIdentifier sample_request) = Some \<lparr>count = 5, resetTime = 900000\<rparr>
   \<and> \<lceil>real_of_int (900000 - 5001) / 1000\<rceil> = 895
   \<and> fst (handler sample_verify sample_sanitize sample_requestEval 5000 5001
          sample_request new_response exhausted_table)
     = \<lparr>status = 429,
        headers = [(''Retry-After'', ''895''), (''X-RateLimit-Limit'', ''5''),
                   (''X-RateLimit-Remaining'', ''0'')],
        body = RateLimitBody ''Rate limit exceeded''
                 (''You'' @ [CHR 0x27] @ ''ve reached the limit of 5 free evaluations. Please try again in 15 minutes or connect your NEAR wallet for unlimited evaluations.'')
                 895\<rparr>"
proof -
  have h1: "(5000::int) \<le> 5000" and h2: "(5000::int) \<le> 5001"
    by simp_all
  have h3: "method' sample_request = ''POST''"
    by (simp add: sample_request_def)
  have h4: "\<not> fst (resolveIdentity sample_verify sample_request)"
    by (simp add: resolveIdentity_def sample_request_def)
  have h5: "\<not> allowed (fst (checkRateLimit 5000 (getClientIdentifier sample_request) exhausted_table))"
    by (simp add: sample_defs run_defs)
  have c: "\<lceil>real_of_int (900000 - 5001) / 1000\<rceil> = 895"
    using ceiling_div_int [of "900000 - 5001" 1000] by simp
  from denied_response
         [where verifyNearAuth = sample_verify and req = sample_request and sanitize = sample_sanitize
            and requestEval = sample_requestEval and res = new_response,
          OF reachable_exhausted_table h1 h2 h3 h4 h5]
  show ?thesis
    using reachable_exhausted_table h5 c rateLimitMessage_895
    by (simp add: sample_defs run_defs retryAfterSeconds_Some)
qed

section \<open>Properties of the returned evaluation\<close>

lemma recompute_ignores_reported:
  "recompute (e\<lparr>qualityScore := q, attentionScore := a, overallPass := p\<rparr>) = recompute e"
  by (simp add: recompute_def quality_passes_def)

lemma requestEvaluation_Inr:
  "requestEvaluation rubric service t c = Inr ev \<Longrightarrow>
   \<exists>reported. service (buildScreeningPrompt rubric t c) = Document reported \<and> ev = recompute reported"
  by (auto simp: requestEvaluation_def split: service_reply.splits)

text \<open>
  Claim C1. Whenever the handler, run with the evaluation requester, answers with an
  evaluation, the title and content passed the sanitizer, the service answered the prompt
  built from them with a document, and the evaluation sent is that document with its
  aggregates recomputed: \<open>qualityScore\<close> is the mean of the six quality criteria
  (pass 1, fail 0), \<open>overallPass\<close> is their conjunction, and the result is the same
  whatever \<open>qualityScore\<close>, \<open>attentionScore\<close> and \<open>overallPass\<close> the service
  reported.
\<close>

theorem returned_evaluation_recomputed:
  assumes "body (fst (handler verifyNearAuth sanitize (requestEvaluation rubric service) now1 now2 req res m))
             = EvaluationBody ev acct"
  shows "qualityScore ev =
           (bool_score (pass (complete ev)) + bool_score (pass (legible ev))
            + bool_score (pass (consistent ev)) + bool_score (pass (compliant ev))
            + bool_score (pass (justified ev)) + bool_score (pass (measurable ev))) / 6
         \<and> overallPass ev =
           (pass (complete ev) \<and> pass (legible ev) \<and> pass (consistent ev)
            \<and> pass (compliant ev) \<and> pass (justified ev) \<and> pass (measurable ev))
         \<and> (\<exists>t c reported.
               sanitize (title req) (content req) = Inr (t, c)
               \<and> service (buildScreeningPrompt rubric t c) = Document reported
               \<and> (\<forall>q a p. ev = recompute (reported\<lparr>qualityScore := q, attentionScore := a,
                                                    overallPass := p\<rparr>)))"
proof -
  from body_handler [OF assms] obtain t c where
    valid: "sanitize (title req) (content req) = Inr (t, c)"
    and ev: "requestEvaluation rubric service t c = Inr ev"
    by blast
  from requestEvaluation_Inr [OF ev] obtain reported where
    reply: "service (buildScreeningPrompt rubric t c) = Document reported"
    and rec: "ev = recompute reported"
    by blast
  have "qualityScore ev =
           (bool_score (pass (complete ev)) + bool_score (pass (legible ev))
            + bool_score (pass (consistent ev)) + bool_score (pass (compliant ev))
            + bool_score (pass (justified ev)) + bool_score (pass (measurable ev))) / 6"
    by (simp add: rec recompute_def quality_passes_def)
  moreover have "overallPass ev =
           (pass (complete ev) \<and> pass (legible ev) \<and> pass (consistent ev)
            \<and> pass (compliant ev) \<and> pass (justified ev) \<and> pass (measurable ev))"
    by (simp add: rec recompute_def quality_passes_def)
  moreover have "\<forall>q a p. ev = recompute (reported\<lparr>qualityScore := q, attentionScore := a,
                                                    overallPass := p\<rparr>)"
    by (simp add: rec recompute_ignores_reported)
  ultimately show ?thesis
    using valid reply by blast
qed

theorem returned_evaluation_recomputed_witness:
  "qualityScore sample_document = 67 / 100 \<and> overallPass sample_document = True
   \<and> body (fst (handler sample_verify sample_sanitize
                  (requestEvaluation ''rubric'' sample_service)
                  1000 1001 sample_request new_response Map.empty))
     = EvaluationBody
         (sample_document\<lparr>qualityScore := 2 / 3, attentionScore := 1 / 2, overallPass := False\<rparr>) None
   \<and> 2 / 3 = (bool_score True + bool_score True + bool_score False
              + bool_score True + bool_score False + bool_score True) / 6"
proof -
  have b: "body (fst (handler sample_verify sample_sanitize
                  (requestEvaluation ''rubric'' sample_service)
                  1000 1001 sample_request new_response Map.empty))
     = EvaluationBody
         (sample_document\<lparr>qualityScore := 2 / 3, attentionScore := 1 / 2, overallPass := False\<rparr>) None"
    by (simp add: sample_defs run_defs)
  from returned_evaluation_recomputed [OF b] b
  show ?thesis
    by (simp add: sample_document_def)
qed

end
